theory Spec2Isabelle
  imports Complex_Main "HOL-Library.Word" "HOL-Library.Signed_Division"
begin

section \<open>Machine types of \<^verbatim>\<open>dump_dspaces.cpp\<close>\<close>

text \<open>
  \<^verbatim>\<open>int\<close> is a 32-bit word read with \<open>sint\<close>; \<^verbatim>\<open>bigint\<close> (LAMMPS' 64-bit integer,
  passed to the store with \<^verbatim>\<open>sizeof(int64_t)\<close>) is a 64-bit word read with \<open>sint\<close>;
  \<^verbatim>\<open>uint64_t\<close> and \<^verbatim>\<open>size_t\<close> are 64-bit words read with \<open>unat\<close>. A conversion from a
  signed 32-bit value to a 64-bit type is the sign extension \<open>scast\<close>; a conversion
  between the signed and the unsigned 64-bit type keeps the bits.
\<close>

type_synonym cint = "32 word"
type_synonym bigint = "64 word"
type_synonym u64 = "64 word"

text \<open>\<^verbatim>\<open>MAXSMALLINT\<close> of \<^verbatim>\<open>lmptype.h\<close> is \<^verbatim>\<open>INT_MAX\<close>.\<close>

definition MAXSMALLINT :: int where
  "MAXSMALLINT = 2147483647"

text \<open>\<^verbatim>\<open>dspaces_SUCCESS\<close> of the DataSpaces client header.\<close>

definition dspaces_SUCCESS :: cint where
  "dspaces_SUCCESS = 0"

subsection \<open>Formatting of \<^verbatim>\<open>{}\<close> arguments in error messages\<close>

definition digit_char :: "nat \<Rightarrow> char" where
  "digit_char n = ''0123456789'' ! n"

fun digits10 :: "nat \<Rightarrow> string" where
  "digits10 n = (if n < 10 then [digit_char n] else digits10 (n div 10) @ [digit_char (n mod 10)])"

declare digits10.simps [simp del]

definition fmt_int :: "int \<Rightarrow> string" where
  "fmt_int i = (if i < 0 then CHR ''-'' # digits10 (nat (- i)) else digits10 (nat i))"

section \<open>The staging store as seen by one process\<close>

text \<open>The client handle is a pointer; \<^verbatim>\<open>dspaces_CLIENT_NULL\<close> is the null handle.\<close>

datatype dspaces_client_t = dspaces_CLIENT_NULL | Client nat

text \<open>
  The structured metadata record of \<^verbatim>\<open>dump_dspaces.h\<close>. Doubles are only copied, never
  computed with, so they are reals here; \<^verbatim>\<open>int boundary[3][2]\<close> is a list of three pairs.
\<close>

record dspaces_lmp_meta =
  boxxlo :: real
  boxxhi :: real
  boxylo :: real
  boxyhi :: real
  boxzlo :: real
  boxzhi :: real
  triclinic :: cint
  boxxy :: real
  boxxz :: real
  boxyz :: real
  boundary :: "(cint \<times> cint) list"

datatype payload =
    P_int cint
  | P_bigint bigint
  | P_string string
  | P_meta dspaces_lmp_meta

text \<open>
  One constructor per function of the store's client API that the dump calls, with the
  arguments in the order of the call. The data buffer of \<^verbatim>\<open>dspaces_put\<close> is filled by
  \<^verbatim>\<open>pack\<close> and \<^verbatim>\<open>sort\<close> of the base class and is left out.
\<close>

datatype store_call =
    Define_gdim dspaces_client_t string nat "u64 list"
  | Put_meta dspaces_client_t string bigint payload nat
  | Put dspaces_client_t string bigint nat nat "u64 list" "u64 list"
  | Fini dspaces_client_t

datatype lmp_error = ErrorAll string | ErrorOne string

section \<open>The dump object and its collaborators\<close>

text \<open>
  The members of the dump object that \<^verbatim>\<open>write\<close> and \<^verbatim>\<open>init_style\<close> read or assign.
  The dump ID (member \<^verbatim>\<open>id\<close>) is \<open>dump_id\<close>; \<open>buf_len\<close> is the number of doubles
  allocated for \<^verbatim>\<open>buf\<close>; \<^verbatim>\<open>keyword_user[icol]\<close> is the empty string where the user gave
  no label; \<open>compute_ptr\<close>, \<open>fix_ptr\<close> and \<open>variable\<close> are the arrays filled by the
  lookups of \<^verbatim>\<open>init_style\<close>.
\<close>

record fix_t =
  style :: string
  peratom_freq :: cint

record dump =
  me :: nat
  client :: dspaces_client_t
  dump_id :: string
  filename :: string
  size_one :: cint
  nfield :: cint
  nevery :: cint
  nme :: cint
  ntotal :: bigint
  maxbuf :: cint
  maxids :: cint
  buf_len :: cint
  sort_flag :: cint
  sortcol :: cint
  dspaces_gdim :: "u64 list"
  dspaces_lb :: "u64 list"
  dspaces_ub :: "u64 list"
  meta :: dspaces_lmp_meta
  columns :: string
  columns_default :: string
  keyword_user :: "nat \<Rightarrow> string"
  id_compute :: "string list"
  id_fix :: "string list"
  id_variable :: "string list"
  idregion :: "string option"
  compute_ptr :: "nat list"
  fix_ptr :: "fix_t list"
  variable :: "cint list"

text \<open>The simulation box as \<^verbatim>\<open>init_style\<close> reads it from \<^verbatim>\<open>domain\<close>.\<close>

record domain_t =
  dom_triclinic :: cint
  boxlo :: "real list"
  boxhi :: "real list"
  boxlo_bound :: "real list"
  boxhi_bound :: "real list"
  xy :: real
  xz :: real
  yz :: real
  dom_boundary :: "(cint \<times> cint) list"

text \<open>
  What the rest of LAMMPS answers to \<^verbatim>\<open>init_style\<close>: the word splitter of \<^verbatim>\<open>utils\<close>, the
  lookups of \<^verbatim>\<open>modify\<close>, \<^verbatim>\<open>input->variable\<close> and \<^verbatim>\<open>domain\<close> (a null pointer is \<open>None\<close>),
  and the box.
\<close>

record lammps_env =
  split_words :: "string \<Rightarrow> string list"
  get_compute_by_id :: "string \<Rightarrow> nat option"
  get_fix_by_id :: "string \<Rightarrow> fix_t option"
  variable_find :: "string \<Rightarrow> cint"
  get_region_by_id :: "string \<Rightarrow> nat option"
  domain :: domain_t

section \<open>\<^verbatim>\<open>DumpDSpaces::write\<close>\<close>

subsection \<open>The two collectives\<close>

text \<open>
  The process group is the list of the values the ranks contribute, rank 0 first.
  \<^verbatim>\<open>MPI_Allreduce\<close> with \<^verbatim>\<open>MPI_SUM\<close> gives every rank the sum of all contributions;
  \<^verbatim>\<open>MPI_Scan\<close> with \<^verbatim>\<open>MPI_SUM\<close> gives rank \<open>r\<close> the sum of the contributions of ranks
  \<open>0..r\<close>, its own included. Both add in the 64-bit type.
\<close>

definition MPI_Allreduce_SUM :: "bigint list \<Rightarrow> bigint" where
  "MPI_Allreduce_SUM xs = sum_list xs"

definition MPI_Scan_SUM :: "bigint list \<Rightarrow> nat \<Rightarrow> bigint" where
  "MPI_Scan_SUM xs r = sum_list (take (Suc r) xs)"

text \<open>
  Lines 71 to 76: \<open>world\<close> holds the \<^verbatim>\<open>nme\<close> of every rank; the result is
  \<^verbatim>\<open>(ntotal, atomOffset)\<close> on rank \<open>r\<close>.
\<close>

definition group_offsets :: "cint list \<Rightarrow> nat \<Rightarrow> bigint \<times> bigint" where
  "group_offsets world r =
     (let bnme = map scast world;
          total = MPI_Allreduce_SUM bnme;
          atomOffset = MPI_Scan_SUM bnme r
      in (total, atomOffset - scast (world ! r)))"

subsection \<open>Buffer growth and the size check\<close>

text \<open>
  Lines 89 to 99. The product of the check is computed in the 64-bit type; the buffer
  length is the \<^verbatim>\<open>int\<close> product.
\<close>

definition too_much_info :: "dump \<Rightarrow> bool" where
  "too_much_info d \<longleftrightarrow>
     sint (maxbuf d) < sint (nme d) \<and>
     MAXSMALLINT < sint (scast (nme d) * scast (size_one d) :: bigint)"

definition grow_buffers :: "dump \<Rightarrow> dump" where
  "grow_buffers d =
     (let d1 = (if sint (maxbuf d) < sint (nme d)
                then d\<lparr>maxbuf := nme d, buf_len := nme d * size_one d\<rparr> else d)
      in if sort_flag d1 \<noteq> 0 \<and> sortcol d1 = 0 \<and> sint (maxids d1) < sint (nme d1)
         then d1\<lparr>maxids := nme d1\<rparr> else d1)"

subsection \<open>The bounds of the local slice\<close>

text \<open>Lines 127 to 130: \<^verbatim>\<open>(dspaces_lb, dspaces_ub)\<close>, computed in \<^verbatim>\<open>uint64_t\<close>.\<close>

definition array_placement :: "cint \<Rightarrow> bigint \<Rightarrow> cint \<Rightarrow> u64 list \<times> u64 list" where
  "array_placement fieldCount atomOffset n =
     ([0, atomOffset], [scast fieldCount - 1, atomOffset + scast n - 1])"

text \<open>
  Whether the axis-1 range \<^verbatim>\<open>[dspaces_lb[1], dspaces_ub[1]]\<close> that rank \<open>r\<close> puts contains
  the record index \<open>j\<close>.
\<close>

definition axis1_covers :: "cint list \<Rightarrow> cint \<Rightarrow> nat \<Rightarrow> u64 \<Rightarrow> bool" where
  "axis1_covers world fieldCount r j \<longleftrightarrow>
     (let (lb, ub) = array_placement fieldCount (snd (group_offsets world r)) (world ! r)
      in lb ! 1 \<le> j \<and> j \<le> ub ! 1)"

subsection \<open>The snapshot\<close>

definition put_tag_message :: "cint \<Rightarrow> string" where
  "put_tag_message ret = ''Error: dspaces_put_tag(), Error Code = '' @ fmt_int (sint ret)"

text \<open>
  One call of \<^verbatim>\<open>write\<close> on rank \<open>me d\<close>: \<open>world\<close> holds what \<^verbatim>\<open>count()\<close> returns on
  every rank, \<open>store\<close> is the status the store returns for a call, \<open>ntimestep\<close> is
  \<^verbatim>\<open>update->ntimestep\<close>. The result is the list of store calls in the order they are
  issued and either the error that ends the process or the dump after the call.
\<close>

definition dump_write ::
  "cint list \<Rightarrow> (store_call \<Rightarrow> cint) \<Rightarrow> bigint \<Rightarrow> dump \<Rightarrow> store_call list \<times> (lmp_error + dump)" where
  "dump_write world store ntimestep d =
     (let n = world ! me d;
          (total, atomOffset) = group_offsets world (me d);
          gdim = [scast (size_one d), total];
          d1 = d\<lparr>nme := n, ntotal := total, dspaces_gdim := gdim\<rparr>;
          c_gdim = Define_gdim (client d1) (dump_id d1) 2 gdim
      in if too_much_info d1
         then ([c_gdim], Inl (ErrorAll ''Too much per-proc info for dump''))
         else
           let d2 = grow_buffers d1;
               c_meta = Put_meta (client d2) ''natoms'' ntimestep (P_bigint total) 8
           in if store c_meta \<noteq> dspaces_SUCCESS
              then ([c_gdim, c_meta], Inl (ErrorOne (put_tag_message (store c_meta))))
              else
                let (lb, ub) = array_placement (size_one d2) atomOffset n;
                    d3 = d2\<lparr>dspaces_lb := lb, dspaces_ub := ub\<rparr>;
                    c_put = Put (client d3) (filename d3) ntimestep 8 2 lb ub
                in if store c_put \<noteq> dspaces_SUCCESS
                   then ([c_gdim, c_meta, c_put], Inl (ErrorOne (put_tag_message (store c_put))))
                   else ([c_gdim, c_meta, c_put], Inr d3))"

section \<open>\<^verbatim>\<open>DumpDSpaces::finalize\<close>\<close>

text \<open>The argument is the static member \<^verbatim>\<open>client\<close>; the result is the list of store calls.\<close>

definition finalize :: "dspaces_client_t \<Rightarrow> store_call list" where
  "finalize c = (if c \<noteq> dspaces_CLIENT_NULL then [Fini c] else [])"

section \<open>\<^verbatim>\<open>DumpDSpaces::init_style\<close>\<close>

subsection \<open>The column string\<close>

text \<open>
  Lines 146 to 155: the loop over the words of \<^verbatim>\<open>columns_default\<close>, with the string
  built so far and the running index \<^verbatim>\<open>icol\<close>.
\<close>

fun combine_columns :: "(nat \<Rightarrow> string) \<Rightarrow> string \<Rightarrow> nat \<Rightarrow> string list \<Rightarrow> string" where
  "combine_columns user combined icol [] = combined"
| "combine_columns user combined icol (item # items) =
     (let c1 = (if length combined \<noteq> 0 then combined @ '' '' else combined);
          c2 = (if length (user icol) \<noteq> 0 then c1 @ user icol else c1 @ item)
      in combine_columns user c2 (icol + 1) items)"

definition assemble_columns :: "string list \<Rightarrow> (nat \<Rightarrow> string) \<Rightarrow> string" where
  "assemble_columns defaults user = combine_columns user [] 0 defaults"

text \<open>
  The column schema in the words of the specification: the label of position \<open>i\<close> is the
  user's where there is one and the default otherwise, and the labels are joined by
  single spaces.
\<close>

fun label_at :: "(nat \<Rightarrow> string) \<Rightarrow> nat \<Rightarrow> string \<Rightarrow> string" where
  "label_at user i item = (if user i = [] then item else user i)"

fun labels_from :: "(nat \<Rightarrow> string) \<Rightarrow> nat \<Rightarrow> string list \<Rightarrow> string list" where
  "labels_from user i [] = []"
| "labels_from user i (item # items) = label_at user i item # labels_from user (Suc i) items"

fun space_joined :: "string list \<Rightarrow> string" where
  "space_joined [] = []"
| "space_joined [w] = w"
| "space_joined (w # v # ws) = w @ '' '' @ space_joined (v # ws)"

subsection \<open>The file name\<close>

text \<open>Lines 160 to 166: the first \<^verbatim>\<open>%\<close> of the file name is removed.\<close>

definition strip_percent :: "string \<Rightarrow> string" where
  "strip_percent f = remove1 (CHR ''%'') f"

subsection \<open>The lookups\<close>

text \<open>
  Lines 176 to 199. Each loop stops at the first identifier that is not found, with
  \<^verbatim>\<open>error->all\<close>. The test \<^verbatim>\<open>nevery % peratom_freq\<close> is the remainder of C++, which
  truncates.
\<close>

fun find_computes :: "(string \<Rightarrow> nat option) \<Rightarrow> string list \<Rightarrow> lmp_error + nat list" where
  "find_computes lookup [] = Inr []"
| "find_computes lookup (i # ids) =
     (case lookup i of
        None \<Rightarrow> Inl (ErrorAll (''Could not find dump dspaces compute ID '' @ i))
      | Some c \<Rightarrow>
          (case find_computes lookup ids of Inl e \<Rightarrow> Inl e | Inr cs \<Rightarrow> Inr (c # cs)))"

fun find_fixes :: "(string \<Rightarrow> fix_t option) \<Rightarrow> cint \<Rightarrow> string list \<Rightarrow> lmp_error + fix_t list" where
  "find_fixes lookup every [] = Inr []"
| "find_fixes lookup every (i # ids) =
     (case lookup i of
        None \<Rightarrow> Inl (ErrorAll (''Could not find dump dspaces fix ID '' @ i))
      | Some f \<Rightarrow>
          if sint every smod sint (peratom_freq f) \<noteq> 0
          then Inl (ErrorAll (''dump dspaces and fix '' @ style f @ '' with ID '' @ i @
                 '' not computed at compatible times''))
          else (case find_fixes lookup every ids of Inl e \<Rightarrow> Inl e | Inr fs \<Rightarrow> Inr (f # fs)))"

fun find_variables :: "(string \<Rightarrow> cint) \<Rightarrow> string list \<Rightarrow> lmp_error + cint list" where
  "find_variables lookup [] = Inr []"
| "find_variables lookup (i # ids) =
     (let ivariable = lookup i
      in if sint ivariable < 0
         then Inl (ErrorAll ''Could not find dump dspaces variable name'')
         else (case find_variables lookup ids of Inl e \<Rightarrow> Inl e | Inr vs \<Rightarrow> Inr (ivariable # vs)))"

definition check_region :: "(string \<Rightarrow> nat option) \<Rightarrow> string option \<Rightarrow> lmp_error + unit" where
  "check_region lookup r =
     (case r of
        None \<Rightarrow> Inr ()
      | Some i \<Rightarrow>
          (case lookup i of
             None \<Rightarrow> Inl (ErrorAll (''Region '' @ i @ '' for dump dspaces does not exist''))
           | Some _ \<Rightarrow> Inr ()))"

subsection \<open>The geometry record\<close>

text \<open>
  Lines 202 to 222: the branch on \<^verbatim>\<open>domain->triclinic\<close> assigns the six box members from
  one of the two boxes, the tilt members only in the triclinic branch, and the boundary
  codes are copied whole.
\<close>

definition fill_meta :: "domain_t \<Rightarrow> dspaces_lmp_meta \<Rightarrow> dspaces_lmp_meta" where
  "fill_meta box m =
     (let m1 =
        (if dom_triclinic box = 0
         then m\<lparr>triclinic := 0,
                boxxlo := boxlo box ! 0, boxxhi := boxhi box ! 0,
                boxylo := boxlo box ! 1, boxyhi := boxhi box ! 1,
                boxzlo := boxlo box ! 2, boxzhi := boxhi box ! 2\<rparr>
         else m\<lparr>triclinic := 1,
                boxxlo := boxlo_bound box ! 0, boxxhi := boxhi_bound box ! 0,
                boxylo := boxlo_bound box ! 1, boxyhi := boxhi_bound box ! 1,
                boxzlo := boxlo_bound box ! 2, boxzhi := boxhi_bound box ! 2,
                boxxy := xy box, boxxz := xz box, boxyz := yz box\<rparr>)
      in m1\<lparr>boundary := dom_boundary box\<rparr>)"

subsection \<open>The metadata puts of the leader\<close>

text \<open>\<^verbatim>\<open>sizeof(struct dspaces_lmp_meta)\<close> with 8-byte doubles aligned to 8 and 4-byte ints.\<close>

definition sizeof_dspaces_lmp_meta :: nat where
  "sizeof_dspaces_lmp_meta = 104"

text \<open>
  Lines 235 to 264, for a dump whose \<^verbatim>\<open>columns\<close> and \<^verbatim>\<open>meta\<close> are already assigned: the
  four puts in the order of the code, each followed by its status test. The length
  parameter of \<^verbatim>\<open>dspaces_put_meta\<close> is unsigned.
\<close>

definition put_schema :: "(store_call \<Rightarrow> cint) \<Rightarrow> dump \<Rightarrow> store_call list \<times> (lmp_error + dump)" where
  "put_schema store d =
     (let column_names_str_size = (of_nat (length (columns d)) :: cint);
          c_size = Put_meta (client d) ''column_names_str_size'' 0 (P_int column_names_str_size) 4;
          c_names = Put_meta (client d) ''column_names'' 0 (P_string (columns d))
                      (unat column_names_str_size);
          c_ncol = Put_meta (client d) ''ncolumns'' 0 (P_int (nfield d)) 4;
          c_geom = Put_meta (client d) (dump_id d) 0 (P_meta (meta d)) sizeof_dspaces_lmp_meta
      in if me d = 0 then
           if store c_size \<noteq> dspaces_SUCCESS
           then ([c_size],
                 Inl (ErrorOne (''Error: dspaces_put_meta(column_names_size) failed, Error Code = '' @
                   fmt_int (sint (store c_size)))))
           else if store c_names \<noteq> dspaces_SUCCESS
           then ([c_size, c_names],
                 Inl (ErrorOne (''Error: dspaces_put_meta(column_names) failed, Error Code = '' @
                   fmt_int (sint (store c_names)))))
           else if store c_ncol \<noteq> dspaces_SUCCESS
           then ([c_size, c_names, c_ncol],
                 Inl (ErrorOne (''Error: dspaces_put_meta(ncolumns) failed, Error Code = '' @
                   fmt_int (sint (store c_ncol)))))
           else if store c_geom \<noteq> dspaces_SUCCESS
           then ([c_size, c_names, c_ncol, c_geom],
                 Inl (ErrorOne (''Error: dspaces_put_meta(dspaces_lmp_meta), Error Code = '' @
                   fmt_int (sint (store c_geom)))))
           else ([c_size, c_names, c_ncol, c_geom], Inr d)
         else ([], Inr d))"

text \<open>
  The whole of \<^verbatim>\<open>init_style\<close>: the store calls in the order they are issued and either
  the error that ends the process or the dump after the call.
\<close>

definition init_style :: "lammps_env \<Rightarrow> (store_call \<Rightarrow> cint) \<Rightarrow> dump \<Rightarrow> store_call list \<times> (lmp_error + dump)" where
  "init_style env store d =
     (let d1 = d\<lparr>columns := assemble_columns (split_words env (columns_default d)) (keyword_user d),
                 filename := strip_percent (filename d)\<rparr>
      in case find_computes (get_compute_by_id env) (id_compute d1) of
           Inl e \<Rightarrow> ([], Inl e)
         | Inr cs \<Rightarrow>
        (case find_fixes (get_fix_by_id env) (nevery d1) (id_fix d1) of
           Inl e \<Rightarrow> ([], Inl e)
         | Inr fs \<Rightarrow>
        (case find_variables (variable_find env) (id_variable d1) of
           Inl e \<Rightarrow> ([], Inl e)
         | Inr vs \<Rightarrow>
        (case check_region (get_region_by_id env) (idregion d1) of
           Inl e \<Rightarrow> ([], Inl e)
         | Inr _ \<Rightarrow>
             put_schema store
               (d1\<lparr>compute_ptr := cs, fix_ptr := fs, variable := vs,
                    meta := fill_meta (domain env) (meta d1)\<rparr>)))))"

section \<open>The schema metadata of the specification\<close>

text \<open>
  The one-time entries in the order the specification lists them, all at version 0, for
  a dump whose column string and geometry record are assigned: the byte length of the
  column schema, the column schema, the column count, the geometry record.
\<close>

definition schema_entries :: "dump \<Rightarrow> store_call list" where
  "schema_entries d =
     [Put_meta (client d) ''column_names_str_size'' 0
        (P_int (of_nat (length (columns d)))) 4,
      Put_meta (client d) ''column_names'' 0 (P_string (columns d))
        (unat (of_nat (length (columns d)) :: cint)),
      Put_meta (client d) ''ncolumns'' 0 (P_int (nfield d)) 4,
      Put_meta (client d) (dump_id d) 0 (P_meta (meta d)) sizeof_dspaces_lmp_meta]"

text \<open>
  The dump with the column string and the geometry record that \<^verbatim>\<open>init_style\<close> assigns
  before its puts.
\<close>

definition prepared :: "lammps_env \<Rightarrow> dump \<Rightarrow> dump" where
  "prepared env d =
     d\<lparr>columns := assemble_columns (split_words env (columns_default d)) (keyword_user d),
       meta := fill_meta (domain env) (meta d)\<rparr>"

section \<open>Example inputs\<close>

text \<open>
  Rank 1 of a group of three, dumping four fields per record under the dump ID \<open>d1\<close>
  into the file name \<open>atoms\<close>, with the user label \<open>Y\<close> on the second column.
\<close>

definition example_dump :: dump where
  "example_dump =
     \<lparr>me = 1, client = Client 1, dump_id = ''d1'', filename = ''atoms'', size_one = 4, nfield = 4,
      nevery = 1, nme = 0, ntotal = 0, maxbuf = 0, maxids = 0, buf_len = 0, sort_flag = 0,
      sortcol = 0, dspaces_gdim = [0, 0], dspaces_lb = [0, 0], dspaces_ub = [0, 0],
      meta = \<lparr>boxxlo = 0, boxxhi = 0, boxylo = 0, boxyhi = 0, boxzlo = 0, boxzhi = 0,
        triclinic = 0, boxxy = 0, boxxz = 0, boxyz = 0, boundary = []\<rparr>,
      columns = [], columns_default = ''x y z vx'', keyword_user = (\<lambda>i. if i = 1 then ''Y'' else []),
      id_compute = [], id_fix = [], id_variable = [], idregion = None,
      compute_ptr = [], fix_ptr = [], variable = []\<rparr>"

text \<open>
  A triclinic box of sides 10, 20 and 30 tilted by 2 in \<open>xy\<close>, so that the bounding box
  reaches 12 in \<open>x\<close>; periodic in \<open>x\<close> and \<open>y\<close>, fixed in \<open>z\<close>.
\<close>

definition example_box :: domain_t where
  "example_box =
     \<lparr>dom_triclinic = 1, boxlo = [0, 0, 0], boxhi = [10, 20, 30],
      boxlo_bound = [0, 0, 0], boxhi_bound = [12, 20, 30], xy = 2, xz = 0, yz = 0,
      dom_boundary = [(0, 0), (0, 0), (1, 1)]\<rparr>"

definition example_env :: lammps_env where
  "example_env =
     \<lparr>split_words = (\<lambda>s. if s = ''x y z vx'' then [''x'', ''y'', ''z'', ''vx''] else []),
      get_compute_by_id = (\<lambda>i. None), get_fix_by_id = (\<lambda>i. None),
      variable_find = (\<lambda>i. - 1), get_region_by_id = (\<lambda>i. None),
      domain = example_box\<rparr>"

section \<open>Sums of record counts in the 64-bit type\<close>

text \<open>
  A group has fewer than \<open>2^31\<close> members (its size is an \<^verbatim>\<open>int\<close>) and a non-negative
  \<^verbatim>\<open>int\<close> count is below \<open>2^31\<close>, so the 64-bit sums of the collectives do not wrap.
\<close>

lemma sum_scast_word_of_int:
  "sum_list (map scast cs :: bigint list) = word_of_int (\<Sum>c\<leftarrow>cs. sint (c :: cint))"
proof (induction cs)
  case Nil
  then show ?case by simp
next
  case (Cons a cs)
  have "(scast a :: bigint) = word_of_int (sint a)"
    by (rule scast_eq)
  with Cons show ?case by (simp del: of_int_sint)
qed

lemma sint_cint_less: "sint (c :: cint) < 2147483648"
  using sint_lt [of c] by simp

lemma sum_sint_bounds:
  "\<forall>c\<in>set cs. 0 \<le> sint c \<Longrightarrow>
     0 \<le> (\<Sum>c\<leftarrow>cs. sint (c :: cint)) \<and> (\<Sum>c\<leftarrow>cs. sint c) \<le> int (length cs) * 2147483648"
proof (induction cs)
  case Nil
  then show ?case by simp
next
  case (Cons a cs)
  then show ?case using sint_cint_less [of a] by (simp add: algebra_simps)
qed

lemma sint_bigint_of_int:
  "0 \<le> k \<Longrightarrow> k < 9223372036854775808 \<Longrightarrow> sint (word_of_int k :: bigint) = k"
  by (simp add: sint_sbintrunc' signed_take_bit_int_eq_self)

lemma sint_sum_scast:
  assumes "\<forall>c\<in>set cs. 0 \<le> sint c" and "length cs < 2147483648"
  shows "sint (sum_list (map scast cs :: bigint list)) = (\<Sum>c\<leftarrow>cs. sint (c :: cint))"
proof -
  let ?S = "\<Sum>c\<leftarrow>cs. sint c"
  from sum_sint_bounds [OF assms(1)] have b: "0 \<le> ?S" "?S \<le> int (length cs) * 2147483648"
    by simp_all
  from assms(2) have "int (length cs) * 2147483648 < 2147483648 * 2147483648"
    by simp
  with b have "?S < 9223372036854775808" by simp
  with b show ?thesis
    by (simp add: sum_scast_word_of_int sint_bigint_of_int)
qed

lemma group_offsets_fst: "fst (group_offsets world r) = sum_list (map scast world)"
  by (simp add: group_offsets_def MPI_Allreduce_SUM_def Let_def)

lemma group_offsets_snd:
  "r < length world \<Longrightarrow> snd (group_offsets world r) = sum_list (map scast (take r world))"
  by (simp add: group_offsets_def MPI_Scan_SUM_def Let_def take_Suc_conv_app_nth take_map)

lemma dump_write_layout:
  "dump_write world store ntimestep d = (calls, Inr d') \<Longrightarrow>
     ntotal d' = fst (group_offsets world (me d)) \<and>
     dspaces_lb d' = [0, snd (group_offsets world (me d))]"
  by (auto simp: dump_write_def Let_def grow_buffers_def array_placement_def
        split: if_splits prod.splits)

text \<open>The 64-bit product of two \<^verbatim>\<open>int\<close> values does not wrap either.\<close>

lemma sint_cint_ge: "- 2147483648 \<le> sint (c :: cint)"
  using sint_ge [of c] by simp

lemma cint_product_bound:
  "\<bar>sint (a :: cint) * sint (b :: cint)\<bar> \<le> 4611686018427387904"
proof -
  have "\<bar>sint a\<bar> \<le> 2147483648" "\<bar>sint b\<bar> \<le> 2147483648"
    using sint_cint_ge [of a] sint_cint_less [of a] sint_cint_ge [of b] sint_cint_less [of b]
    by simp_all
  then have "\<bar>sint a\<bar> * \<bar>sint b\<bar> \<le> 2147483648 * 2147483648"
    by (intro mult_mono) simp_all
  then show ?thesis by (simp add: abs_mult)
qed

lemma sint_mult_cint:
  "sint (scast a * scast b :: bigint) = sint (a :: cint) * sint (b :: cint)"
proof -
  have e: "(scast a * scast b :: bigint) = word_of_int (sint a * sint b)"
    by (simp add: scast_eq [of a] scast_eq [of b] del: of_int_sint)
  have "- 9223372036854775808 \<le> sint a * sint b" "sint a * sint b < 9223372036854775808"
    using cint_product_bound [of a b] by simp_all
  then have "sint (word_of_int (sint a * sint b) :: bigint) = sint a * sint b"
    by (simp add: sint_sbintrunc' signed_take_bit_int_eq_self del: of_int_mult)
  then show ?thesis
    by (simp only: e)
qed

lemma too_much_info_iff:
  "too_much_info d \<longleftrightarrow>
     sint (maxbuf d) < sint (nme d) \<and> MAXSMALLINT < sint (nme d) * sint (size_one d)"
  by (simp add: too_much_info_def sint_mult_cint)

section \<open>Evaluation of \<^verbatim>\<open>write\<close> on concrete inputs\<close>

lemmas write_eval =
  dump_write_def group_offsets_def MPI_Allreduce_SUM_def MPI_Scan_SUM_def too_much_info_def
  MAXSMALLINT_def grow_buffers_def array_placement_def dspaces_SUCCESS_def put_tag_message_def
  fmt_int_def digit_char_def Let_def

lemma digits10_small: "n < 10 \<Longrightarrow> digits10 n = [digit_char n]"
  by (simp add: digits10.simps)

section \<open>Total and offset\<close>

text \<open>
  C1. For every process group and every assignment of non-negative local counts,
  \<^verbatim>\<open>write\<close> computes the total as the sum of the local counts of all members and the
  offset of a rank as the sum of the local counts of the ranks strictly below it; the
  offset of rank 0 is 0. A call of \<^verbatim>\<open>write\<close> that returns leaves the total in \<^verbatim>\<open>ntotal\<close>
  and the offset in \<^verbatim>\<open>dspaces_lb[1]\<close>.
\<close>

theorem write_total_and_offset:
  assumes nonneg: "\<forall>c\<in>set world. 0 \<le> sint c"
    and size: "length world < 2147483648"
    and rank: "me d < length world"
  shows "sint (fst (group_offsets world (me d))) = (\<Sum>c\<leftarrow>world. sint c) \<and>
         sint (snd (group_offsets world (me d))) = (\<Sum>c\<leftarrow>take (me d) world. sint c) \<and>
         (me d = 0 \<longrightarrow> snd (group_offsets world (me d)) = 0) \<and>
         (\<forall>calls d'. dump_write world store ntimestep d = (calls, Inr d') \<longrightarrow>
            ntotal d' = fst (group_offsets world (me d)) \<and>
            dspaces_lb d' = [0, snd (group_offsets world (me d))])"
proof -
  have total: "sint (fst (group_offsets world (me d))) = (\<Sum>c\<leftarrow>world. sint c)"
    using nonneg size by (simp add: group_offsets_fst sint_sum_scast)
  have "\<forall>c\<in>set (take (me d) world). 0 \<le> sint c"
    using nonneg by (meson in_set_takeD)
  moreover have "length (take (me d) world) < 2147483648"
    using size by simp
  ultimately have off: "sint (snd (group_offsets world (me d))) = (\<Sum>c\<leftarrow>take (me d) world. sint c)"
    using rank by (simp only: group_offsets_snd sint_sum_scast)
  have zero: "me d = 0 \<longrightarrow> snd (group_offsets world (me d)) = 0"
  proof
    assume "me d = 0"
    with rank group_offsets_snd [of 0 world] show "snd (group_offsets world (me d)) = 0"
      by simp
  qed
  show ?thesis
    using total off zero dump_write_layout by blast
qed

theorem write_total_and_offset_witness:
  "sint (fst (group_offsets [2, 3, 1] (me example_dump))) = 6 \<and>
   sint (snd (group_offsets [2, 3, 1] (me example_dump))) = 2 \<and>
   (\<exists>calls d'. dump_write [2, 3, 1] (\<lambda>c. 0) 100 example_dump = (calls, Inr d') \<and>
      ntotal d' = 6 \<and> dspaces_lb d' = [0, 2])"
proof -
  have w: "\<forall>c\<in>set [2, 3, 1 :: cint]. 0 \<le> sint c" by simp
  have l: "length [2, 3, 1 :: cint] < 2147483648" by simp
  have r: "me example_dump < length [2, 3, 1 :: cint]" by (simp add: example_dump_def)
  have ex: "\<exists>calls d'. dump_write [2, 3, 1] (\<lambda>c. 0) 100 example_dump = (calls, Inr d')"
    by (simp add: dump_write_def example_dump_def group_offsets_def MPI_Allreduce_SUM_def
          MPI_Scan_SUM_def too_much_info_def MAXSMALLINT_def grow_buffers_def array_placement_def
          dspaces_SUCCESS_def Let_def)
  have g: "group_offsets [2, 3, 1] (me example_dump) = (6, 2)"
    by (simp add: example_dump_def group_offsets_def MPI_Allreduce_SUM_def MPI_Scan_SUM_def Let_def)
  from write_total_and_offset [OF w l r, of "\<lambda>c. 0" 100] ex show ?thesis
    unfolding g by auto
qed

section \<open>Placement of the local slices\<close>

text \<open>
  When rank 0 has at least one record, no bound wraps: the range of rank \<open>r\<close> is
  \<open>[offset, offset + count - 1]\<close>, empty for a rank without records, and the ranges of
  the group tile \<open>[0, total - 1]\<close>: every record index below the total lies in the range
  of exactly one rank, and no index from the total on lies in any.
\<close>

lemma uint_bigint_of_int:
  "0 \<le> k \<Longrightarrow> k < 18446744073709551616 \<Longrightarrow> uint (word_of_int k :: u64) = k"
  by (simp add: uint_word_of_int_eq take_bit_int_eq_self)

lemma sum_take_le:
  fixes xs :: "int list"
  assumes "\<forall>x\<in>set xs. 0 \<le> x"
  shows "sum_list (take k xs) \<le> sum_list xs"
proof -
  have "sum_list xs = sum_list (take k xs) + sum_list (drop k xs)"
    by (metis append_take_drop_id sum_list_append)
  moreover have "0 \<le> sum_list (drop k xs)"
    using assms by (meson in_set_dropD sum_list_nonneg)
  ultimately show ?thesis by simp
qed

lemma prefix_sum_unique_rank:
  fixes xs :: "int list"
  assumes "\<forall>x\<in>set xs. 0 \<le> x" and "0 \<le> j" and "j < sum_list xs"
  shows "\<exists>!r. r < length xs \<and> sum_list (take r xs) \<le> j \<and> j < sum_list (take r xs) + xs ! r"
  using assms
proof (induction xs arbitrary: j)
  case Nil
  then show ?case by simp
next
  case (Cons x xs)
  let ?P = "\<lambda>ys k r. r < length ys \<and> sum_list (take r ys) \<le> k \<and> k < sum_list (take r ys) + ys ! r"
  have pos: "\<forall>y\<in>set xs. 0 \<le> y" and x0: "0 \<le> x"
    using Cons.prems(1) by simp_all
  have suc: "?P (x # xs) j (Suc r) \<longleftrightarrow> ?P xs (j - x) r" for r
    by auto
  show ?case
  proof (cases "j < x")
    case True
    have "?P (x # xs) j 0"
      using True Cons.prems(2) by simp
    moreover have "r = 0" if "?P (x # xs) j r" for r
    proof (cases r)
      case 0
      then show ?thesis .
    next
      case (Suc r')
      with that have "x + sum_list (take r' xs) \<le> j" by simp
      moreover have "0 \<le> sum_list (take r' xs)"
        using pos by (meson in_set_takeD sum_list_nonneg)
      ultimately show ?thesis using True by simp
    qed
    ultimately show ?thesis by blast
  next
    case False
    then have "0 \<le> j - x" "j - x < sum_list xs"
      using Cons.prems(3) by simp_all
    from Cons.IH [OF pos this] obtain r where r: "?P xs (j - x) r"
      and uniq: "\<And>r'. ?P xs (j - x) r' \<Longrightarrow> r' = r"
      by blast
    have "?P (x # xs) j (Suc r)"
      using r suc by blast
    moreover have "q = Suc r" if "?P (x # xs) j q" for q
    proof (cases q)
      case 0
      with that False show ?thesis by simp
    next
      case (Suc q')
      with that suc have "?P xs (j - x) q'" by blast
      with uniq Suc show ?thesis by blast
    qed
    ultimately show ?thesis by blast
  qed
qed

lemma offset_bounds:
  fixes world :: "cint list"
  assumes nonneg: "\<forall>c\<in>set world. 0 \<le> sint c" and size: "length world < 2147483648"
  shows "0 \<le> (\<Sum>c\<leftarrow>take r world. sint c) \<and>
         (\<Sum>c\<leftarrow>take r world. sint c) < 4611686018427387904"
proof -
  have "\<forall>c\<in>set (take r world). 0 \<le> sint c"
    using nonneg by (meson in_set_takeD)
  from sum_sint_bounds [OF this]
  have "0 \<le> (\<Sum>c\<leftarrow>take r world. sint c)"
    and "(\<Sum>c\<leftarrow>take r world. sint c) \<le> int (length (take r world)) * 2147483648"
    by simp_all
  moreover have "int (length (take r world)) * 2147483648 < 2147483648 * 2147483648"
    using size by simp
  ultimately show ?thesis by simp
qed

lemma offset_positive:
  fixes world :: "cint list"
  assumes nonneg: "\<forall>c\<in>set world. 0 \<le> sint c" and first: "0 < sint (world ! 0)"
    and r: "0 < r" and rank: "r < length world"
  shows "0 < (\<Sum>c\<leftarrow>take r world. sint c)"
proof -
  from r rank obtain c cs where w: "world = c # cs"
    by (cases world) auto
  from r obtain r' where r': "r = Suc r'"
    by (cases r) auto
  have "0 \<le> (\<Sum>c\<leftarrow>take r' cs. sint c)"
    using nonneg w by (intro sum_list_nonneg) (auto dest: in_set_takeD)
  with first w r' show ?thesis by simp
qed

lemma axis1_covers_iff:
  assumes nonneg: "\<forall>c\<in>set world. 0 \<le> sint c" and size: "length world < 2147483648"
    and first: "0 < sint (world ! 0)" and rank: "r < length world"
  shows "axis1_covers world fieldCount r j \<longleftrightarrow>
           (\<Sum>c\<leftarrow>take r world. sint c) \<le> uint j \<and>
           uint j < (\<Sum>c\<leftarrow>take r world. sint c) + sint (world ! r)"
proof -
  let ?O = "\<Sum>c\<leftarrow>take r world. sint c"
  let ?n = "sint (world ! r)"
  have O: "0 \<le> ?O" "?O < 4611686018427387904"
    using offset_bounds [OF nonneg size, of r] by simp_all
  have n: "0 \<le> ?n" "?n < 2147483648"
    using nonneg rank sint_cint_less [of "world ! r"] by simp_all
  have one: "1 \<le> ?O + ?n"
  proof (cases "r = 0")
    case True
    with first O show ?thesis by simp
  next
    case False
    with offset_positive [OF nonneg first _ rank] n show ?thesis by simp
  qed
  have off: "snd (group_offsets world r) = word_of_int ?O"
    using rank by (simp add: group_offsets_snd sum_scast_word_of_int)
  have "(scast (world ! r) :: u64) = word_of_int ?n"
    by (rule scast_eq)
  then have ub: "snd (group_offsets world r) + scast (world ! r) - 1 = (word_of_int (?O + ?n - 1) :: u64)"
    by (simp add: off del: of_int_sint)
  have "uint (word_of_int ?O :: u64) = ?O"
    using O by (intro uint_bigint_of_int) simp_all
  moreover have "uint (word_of_int (?O + ?n - 1) :: u64) = ?O + ?n - 1"
    using O n one by (intro uint_bigint_of_int) simp_all
  ultimately show ?thesis
    unfolding axis1_covers_def array_placement_def ub
    by (simp add: off word_le_def del: of_int_sint of_int_add of_int_diff)
qed

lemma slices_tile:
  assumes nonneg: "\<forall>c\<in>set world. 0 \<le> sint c" and size: "length world < 2147483648"
    and first: "0 < sint (world ! 0)"
  shows "(uint j < (\<Sum>c\<leftarrow>world. sint c) \<longrightarrow>
            (\<exists>!r. r < length world \<and> axis1_covers world fieldCount r j)) \<and>
         ((\<Sum>c\<leftarrow>world. sint c) \<le> uint j \<longrightarrow>
            (\<forall>r<length world. \<not> axis1_covers world fieldCount r j))"
proof -
  let ?xs = "map sint world"
  have xs: "\<forall>x\<in>set ?xs. 0 \<le> x"
    using nonneg by simp
  have cov: "axis1_covers world fieldCount r j \<longleftrightarrow>
      sum_list (take r ?xs) \<le> uint j \<and> uint j < sum_list (take r ?xs) + ?xs ! r"
    if "r < length world" for r
    using axis1_covers_iff [OF nonneg size first that, of fieldCount j] that
    by (simp add: take_map)
  have inside: "\<exists>!r. r < length world \<and> axis1_covers world fieldCount r j"
    if "uint j < sum_list ?xs"
  proof -
    from prefix_sum_unique_rank [OF xs _ that]
    have "\<exists>!r. r < length ?xs \<and> sum_list (take r ?xs) \<le> uint j \<and>
             uint j < sum_list (take r ?xs) + ?xs ! r"
      by simp
    then show ?thesis
      using cov by (metis (no_types, lifting) length_map)
  qed
  have outside: "\<not> axis1_covers world fieldCount r j"
    if "sum_list ?xs \<le> uint j" "r < length world" for r
  proof -
    have "sum_list (take r ?xs) + ?xs ! r = sum_list (take (Suc r) ?xs)"
      using that(2) by (simp add: take_Suc_conv_app_nth)
    also have "\<dots> \<le> sum_list ?xs"
      using xs by (rule sum_take_le)
    finally show ?thesis
      using that cov [OF that(2)] by simp
  qed
  from inside outside show ?thesis by blast
qed

lemma axis0_range:
  "0 < sint fieldCount \<Longrightarrow>
     fst (array_placement fieldCount off n) ! 0 = 0 \<and>
     uint (snd (array_placement fieldCount off n) ! 0) = sint fieldCount - 1"
proof -
  assume pos: "0 < sint fieldCount"
  have "(scast fieldCount :: u64) = word_of_int (sint fieldCount)"
    by (rule scast_eq)
  then have "(scast fieldCount - 1 :: u64) = word_of_int (sint fieldCount - 1)"
    by (simp del: of_int_sint)
  moreover have "uint (word_of_int (sint fieldCount - 1) :: u64) = sint fieldCount - 1"
    using pos sint_cint_less [of fieldCount] by (intro uint_bigint_of_int) simp_all
  ultimately show ?thesis
    by (simp add: array_placement_def del: of_int_sint of_int_diff)
qed

text \<open>
  C2. The specification states that for every group size and every assignment of
  non-negative local counts the axis-1 ranges \<^verbatim>\<open>[dspaces_lb[1], dspaces_ub[1]]\<close> of all
  processes tile \<open>[0, total - 1]\<close> without gap or overlap, with axis 0 spanning
  \<open>[0, fieldCount - 1]\<close>. The code does so only when rank 0 has a record. On the group
  with counts 0 and 3 and four fields, rank 0 has offset 0 and count 0, and
  \<^verbatim>\<open>dspaces_lb[1] + nme - 1\<close> wraps in \<^verbatim>\<open>uint64_t\<close>: rank 0 puts the axis-1 range
  \<open>[0, 2^64 - 1]\<close>, which contains the range \<open>[0, 2]\<close> that rank 1 puts: record 0 is in
  the ranges of both ranks, and record 3, beyond the total, is in the range of rank 0.
\<close>

theorem write_zero_count_first_rank_overlaps:
  "fst (dump_write [0, 3] (\<lambda>c. 0) 100 (example_dump\<lparr>me := 0\<rparr>)) =
     [Define_gdim (Client 1) ''d1'' 2 [4, 3],
      Put_meta (Client 1) ''natoms'' 100 (P_bigint 3) 8,
      Put (Client 1) ''atoms'' 100 8 2 [0, 0] [3, 18446744073709551615]] \<and>
   fst (dump_write [0, 3] (\<lambda>c. 0) 100 (example_dump\<lparr>me := 1\<rparr>)) =
     [Define_gdim (Client 1) ''d1'' 2 [4, 3],
      Put_meta (Client 1) ''natoms'' 100 (P_bigint 3) 8,
      Put (Client 1) ''atoms'' 100 8 2 [0, 0] [3, 2]] \<and>
   axis1_covers [0, 3] 4 0 0 \<and> axis1_covers [0, 3] 4 1 0 \<and> axis1_covers [0, 3] 4 0 3"
  by (simp add: write_eval axis1_covers_def example_dump_def)

section \<open>A process without records\<close>

text \<open>
  With counts 3 and 0, rank 1 has no record and still issues the array put, with the
  empty axis-1 range \<open>[3, 2]\<close>.
\<close>

theorem write_zero_count_still_puts:
  "[3, 0 :: cint] ! me example_dump = 0 \<and>
   dump_write [3, 0] (\<lambda>c. 0) 100 example_dump =
     ([Define_gdim (Client 1) ''d1'' 2 [4, 3],
       Put_meta (Client 1) ''natoms'' 100 (P_bigint 3) 8,
       Put (Client 1) ''atoms'' 100 8 2 [0, 3] [3, 2]],
      Inr (example_dump\<lparr>ntotal := 3, dspaces_gdim := [4, 3], dspaces_lb := [0, 3], dspaces_ub := [3, 2]\<rparr>))"
  by (simp add: write_eval example_dump_def)

text \<open>
  C3, as the code has it. A process whose local count is 0 adds nothing to the total: the
  total is the sum over the other members. Its array put is not skipped: whenever the
  record-count metadata put succeeds, \<^verbatim>\<open>write\<close> issues the shape declaration, the
  record-count put and one array put under the file name, whose axis-1 lower bound is the
  offset of the process.
\<close>

theorem write_zero_count_put_issued:
  assumes rank: "me d < length world"
    and zero: "world ! me d = 0"
    and ok: "store (Put_meta (client d) ''natoms'' ntimestep
               (P_bigint (fst (group_offsets world (me d)))) 8) = dspaces_SUCCESS"
  shows "fst (group_offsets world (me d)) =
           MPI_Allreduce_SUM (map scast (take (me d) world @ drop (Suc (me d)) world)) \<and>
         (\<exists>ub. fst (dump_write world store ntimestep d) =
            [Define_gdim (client d) (dump_id d) 2
               [scast (size_one d), fst (group_offsets world (me d))],
             Put_meta (client d) ''natoms'' ntimestep
               (P_bigint (fst (group_offsets world (me d)))) 8,
             Put (client d) (filename d) ntimestep 8 2
               [0, snd (group_offsets world (me d))] ub])"
proof -
  from rank have "world = take (me d) world @ world ! me d # drop (Suc (me d)) world"
    by (simp add: id_take_nth_drop [symmetric])
  then have "map scast world =
      (map scast (take (me d) world) @ (scast (world ! me d) :: bigint) # map scast (drop (Suc (me d)) world))"
    by (metis list.simps(9) map_append)
  with zero have total: "fst (group_offsets world (me d)) =
      MPI_Allreduce_SUM (map scast (take (me d) world @ drop (Suc (me d)) world))"
    by (simp add: group_offsets_def MPI_Allreduce_SUM_def Let_def)
  have calls: "\<exists>ub. fst (dump_write world store ntimestep d) =
            [Define_gdim (client d) (dump_id d) 2
               [scast (size_one d), fst (group_offsets world (me d))],
             Put_meta (client d) ''natoms'' ntimestep
               (P_bigint (fst (group_offsets world (me d)))) 8,
             Put (client d) (filename d) ntimestep 8 2
               [0, snd (group_offsets world (me d))] ub]"
    using zero ok
    by (auto simp: dump_write_def too_much_info_iff grow_buffers_def array_placement_def Let_def
        MAXSMALLINT_def split: prod.splits)
  from total calls show ?thesis by simp
qed

theorem write_zero_count_put_issued_witness:
  "[3, 0 :: cint] ! me example_dump = 0 \<and>
   fst (group_offsets [3, 0] (me example_dump)) = MPI_Allreduce_SUM (map scast [3 :: cint]) \<and>
   (\<exists>ub. fst (dump_write [3, 0] (\<lambda>c. 0) 100 example_dump) =
      [Define_gdim (Client 1) ''d1'' 2 [4, 3],
       Put_meta (Client 1) ''natoms'' 100 (P_bigint 3) 8,
       Put (Client 1) ''atoms'' 100 8 2 [0, 3] ub])"
proof -
  have rank: "me example_dump < length [3, 0 :: cint]"
    by (simp add: example_dump_def)
  have zero: "[3, 0 :: cint] ! me example_dump = 0"
    by (simp add: example_dump_def)
  have ok: "(\<lambda>c. 0) (Put_meta (client example_dump) ''natoms'' 100
               (P_bigint (fst (group_offsets [3, 0] (me example_dump)))) 8) = dspaces_SUCCESS"
    by (simp add: dspaces_SUCCESS_def)
  have g: "group_offsets [3, 0] (me example_dump) = (3, 3)"
    by (simp add: example_dump_def group_offsets_def MPI_Allreduce_SUM_def MPI_Scan_SUM_def Let_def)
  from write_zero_count_put_issued [OF rank zero ok] zero show ?thesis
    unfolding g by (simp add: example_dump_def)
qed

section \<open>Failed puts\<close>

text \<open>
  A put of \<^verbatim>\<open>write\<close> that returns a status other than success is the last store call of
  the snapshot, and the process ends with an error message that carries the status.
\<close>

lemma write_failed_put_ends_snapshot:
  assumes "dump_write world store ntimestep d = (calls, r)"
    and "c \<in> set calls"
    and "\<forall>h n k g. c \<noteq> Define_gdim h n k g"
    and "store c \<noteq> dspaces_SUCCESS"
  shows "c = last calls \<and> r = Inl (ErrorOne (put_tag_message (store c)))"
  using assms
  by (auto simp: dump_write_def Let_def split: prod.splits if_splits)

text \<open>
  C4. The specification states that a failed put ends the process with a message that
  contains the status code and the name of the operation that failed, before any later
  publish step. With status -1 from the record-count metadata put, and with status -1
  from the array put, \<^verbatim>\<open>write\<close> stops at the failed call with the status in the message,
  but both messages name \<^verbatim>\<open>dspaces_put_tag()\<close>, which is neither of the two operations.
\<close>

theorem write_failures_name_put_tag:
  "dump_write [2, 3, 1] (\<lambda>c. case c of Put_meta h k v p n \<Rightarrow> - 1 | _ \<Rightarrow> 0) 100 example_dump =
     ([Define_gdim (Client 1) ''d1'' 2 [4, 6],
       Put_meta (Client 1) ''natoms'' 100 (P_bigint 6) 8],
      Inl (ErrorOne ''Error: dspaces_put_tag(), Error Code = -1'')) \<and>
   dump_write [2, 3, 1] (\<lambda>c. case c of Put h k v e n l u \<Rightarrow> - 1 | _ \<Rightarrow> 0) 100 example_dump =
     ([Define_gdim (Client 1) ''d1'' 2 [4, 6],
       Put_meta (Client 1) ''natoms'' 100 (P_bigint 6) 8,
       Put (Client 1) ''atoms'' 100 8 2 [0, 2] [3, 4]],
      Inl (ErrorOne ''Error: dspaces_put_tag(), Error Code = -1''))"
  by (simp add: write_eval example_dump_def digits10_small)

section \<open>Shape declaration\<close>

text \<open>
  The shape \<open>[fieldCount, total]\<close> is declared by the first store call of every call of
  \<^verbatim>\<open>write\<close>, under the dump ID; the array put names the file name.
\<close>

lemma write_shape_declared_first:
  "\<exists>rest. fst (dump_write world store ntimestep d) =
      Define_gdim (client d) (dump_id d) 2 [scast (size_one d), fst (group_offsets world (me d))] # rest \<and>
      (\<forall>c\<in>set rest. \<forall>h n k g. c \<noteq> Define_gdim h n k g)"
  by (auto simp: dump_write_def grow_buffers_def Let_def split: prod.splits if_splits)

lemma write_slice_under_filename:
  "Put h name v e n lb ub \<in> set (fst (dump_write world store ntimestep d)) \<Longrightarrow>
     h = client d \<and> name = filename d \<and> v = ntimestep \<and> e = 8 \<and> n = 2"
  by (auto simp: dump_write_def grow_buffers_def Let_def split: prod.splits if_splits)

text \<open>
  C5. The specification states that the shape \<open>[fieldCount, total]\<close> is declared under
  the same dataset name as the one the local slice is put under, before any data of the
  version, in every snapshot. For the dump with ID \<open>d1\<close> and file name \<open>atoms\<close> the
  shape \<open>[4, 6]\<close> is declared first, but under \<open>d1\<close>, while the slice is put under
  \<open>atoms\<close>.
\<close>

theorem write_shape_and_slice_names:
  "fst (dump_write [2, 3, 1] (\<lambda>c. 0) 100 example_dump) =
     [Define_gdim (Client 1) ''d1'' 2 [4, 6],
      Put_meta (Client 1) ''natoms'' 100 (P_bigint 6) 8,
      Put (Client 1) ''atoms'' 100 8 2 [0, 2] [3, 4]] \<and>
   dump_id example_dump = ''d1'' \<and> filename example_dump = ''atoms''"
  by (simp add: write_eval example_dump_def)

section \<open>Buffer-size overflow\<close>

text \<open>
  With a local count of \<open>2^30\<close> on rank 1 and four fields the size check fails, after the
  shape declaration has been issued to the store.
\<close>

theorem write_overflow_after_shape:
  "dump_write [5, 1073741824] (\<lambda>c. 0) 100 example_dump =
     ([Define_gdim (Client 1) ''d1'' 2 [4, 1073741829]],
      Inl (ErrorAll ''Too much per-proc info for dump''))"
  by (simp add: write_eval example_dump_def)

text \<open>A call of \<^verbatim>\<open>write\<close> that returns keeps the allocated buffer within \<^verbatim>\<open>MAXSMALLINT\<close>.\<close>

lemma dump_write_keeps_buffer_bound:
  assumes "sint (maxbuf d) * sint (size_one d) \<le> MAXSMALLINT"
    and "dump_write world store ntimestep d = (calls, Inr d')"
  shows "sint (maxbuf d') * sint (size_one d') \<le> MAXSMALLINT \<and> size_one d' = size_one d"
  using assms
  by (auto simp: dump_write_def too_much_info_iff grow_buffers_def array_placement_def Let_def
        split: prod.splits if_splits)

text \<open>
  C6, as the code has it. When the local record count times the field count exceeds
  \<^verbatim>\<open>MAXSMALLINT\<close>, \<^verbatim>\<open>write\<close> ends with the fatal error after the shape declaration and
  before any put: the shape declaration is the only store call of the snapshot. The buffer
  allocated so far is within \<^verbatim>\<open>MAXSMALLINT\<close>, as it is initially and after every call that
  returns.
\<close>

theorem write_overflow_before_puts:
  assumes inv: "sint (maxbuf d) * sint (size_one d) \<le> MAXSMALLINT"
    and pos: "0 < sint (size_one d)"
    and over: "MAXSMALLINT < sint (world ! me d) * sint (size_one d)"
  shows "dump_write world store ntimestep d =
           ([Define_gdim (client d) (dump_id d) 2
               [scast (size_one d), fst (group_offsets world (me d))]],
            Inl (ErrorAll ''Too much per-proc info for dump''))"
proof -
  from inv over have "sint (maxbuf d) * sint (size_one d) < sint (world ! me d) * sint (size_one d)"
    by simp
  with pos have "sint (maxbuf d) < sint (world ! me d)"
    by (simp add: mult_less_cancel_right)
  with over show ?thesis
    by (simp add: dump_write_def too_much_info_iff Let_def split: prod.splits)
qed

theorem write_overflow_before_puts_witness:
  "dump_write [1073741824] (\<lambda>c. 0) 100 (example_dump\<lparr>me := 0\<rparr>) =
     ([Define_gdim (Client 1) ''d1'' 2 [4, 1073741824]],
      Inl (ErrorAll ''Too much per-proc info for dump''))"
proof -
  let ?d = "example_dump\<lparr>me := 0\<rparr>"
  have inv: "sint (maxbuf ?d) * sint (size_one ?d) \<le> MAXSMALLINT"
    by (simp add: example_dump_def MAXSMALLINT_def)
  have pos: "0 < sint (size_one ?d)"
    by (simp add: example_dump_def)
  have over: "MAXSMALLINT < sint ([1073741824 :: cint] ! me ?d) * sint (size_one ?d)"
    by (simp add: example_dump_def MAXSMALLINT_def)
  have g: "fst (group_offsets [1073741824] (me ?d)) = 1073741824"
    by (simp add: group_offsets_def MPI_Allreduce_SUM_def Let_def)
  from write_overflow_before_puts [OF inv pos over, of "\<lambda>c. 0" 100] show ?thesis
    unfolding g by (simp add: example_dump_def)
qed

section \<open>One-time schema metadata\<close>

lemmas init_eval =
  init_style_def put_schema_def assemble_columns_def strip_percent_def check_region_def
  fill_meta_def sizeof_dspaces_lmp_meta_def dspaces_SUCCESS_def Let_def

lemma init_style_example:
  "init_style example_env (\<lambda>c. 0) (example_dump\<lparr>me := 0\<rparr>) =
     ([Put_meta (Client 1) ''column_names_str_size'' 0 (P_int 8) 4,
       Put_meta (Client 1) ''column_names'' 0 (P_string ''x Y z vx'') 8,
       Put_meta (Client 1) ''ncolumns'' 0 (P_int 4) 4,
       Put_meta (Client 1) ''d1'' 0
         (P_meta \<lparr>boxxlo = 0, boxxhi = 12, boxylo = 0, boxyhi = 20, boxzlo = 0, boxzhi = 30,
            triclinic = 1, boxxy = 2, boxxz = 0, boxyz = 0,
            boundary = [(0, 0), (0, 0), (1, 1)]\<rparr>) 104],
      Inr (example_dump\<lparr>me := 0, columns := ''x Y z vx'',
             meta := \<lparr>boxxlo = 0, boxxhi = 12, boxylo = 0, boxyhi = 20, boxzlo = 0, boxzhi = 30,
               triclinic = 1, boxxy = 2, boxxz = 0, boxyz = 0,
               boundary = [(0, 0), (0, 0), (1, 1)]\<rparr>\<rparr>))"
  by (simp add: init_eval example_env_def example_box_def example_dump_def)

lemma put_schema_follower: "me d \<noteq> 0 \<Longrightarrow> put_schema store d = ([], Inr d)"
  by (simp add: put_schema_def Let_def)

lemma put_schema_prefix:
  "me d = 0 \<Longrightarrow> \<exists>rest. schema_entries d = fst (put_schema store d) @ rest"
  by (simp add: put_schema_def schema_entries_def Let_def)

lemma put_schema_success:
  "me d = 0 \<Longrightarrow> put_schema store d = (calls, Inr d') \<Longrightarrow> calls = schema_entries d' \<and> d' = d"
  by (auto simp: put_schema_def schema_entries_def Let_def split: if_splits)

lemma init_style_follower: "me d \<noteq> 0 \<Longrightarrow> fst (init_style env store d) = []"
  by (simp add: init_style_def put_schema_follower Let_def split: sum.splits)

lemma init_style_prefix:
  assumes "me d = 0"
  shows "\<exists>rest. schema_entries (prepared env d) = fst (init_style env store d) @ rest"
proof -
  have "\<exists>rest. schema_entries (prepared env d) = fst (put_schema store d1) @ rest"
    if "me d1 = 0" "schema_entries d1 = schema_entries (prepared env d)" for d1
    using put_schema_prefix [OF that(1), of store] that(2) by simp
  then show ?thesis
    using assms
    by (simp add: init_style_def Let_def prepared_def schema_entries_def split: sum.splits)
qed

lemma init_style_returns:
  assumes "init_style env store d = (calls, Inr d')"
  shows "\<exists>cs fs vs. put_schema store
           (d\<lparr>columns := assemble_columns (split_words env (columns_default d)) (keyword_user d),
              filename := strip_percent (filename d),
              compute_ptr := cs, fix_ptr := fs, variable := vs,
              meta := fill_meta (domain env) (meta d)\<rparr>) = (calls, Inr d')"
  using assms by (auto simp: init_style_def Let_def split: sum.splits)

lemma init_style_success:
  assumes leader: "me d = 0" and ret: "init_style env store d = (calls, Inr d')"
  shows "calls = schema_entries d' \<and> schema_entries d' = schema_entries (prepared env d)"
proof -
  from init_style_returns [OF ret] obtain cs fs vs where
    p: "put_schema store
           (d\<lparr>columns := assemble_columns (split_words env (columns_default d)) (keyword_user d),
              filename := strip_percent (filename d),
              compute_ptr := cs, fix_ptr := fs, variable := vs,
              meta := fill_meta (domain env) (meta d)\<rparr>) = (calls, Inr d')"
    by blast
  from put_schema_success [OF _ p] leader have "calls = schema_entries d'" and
    "d' = d\<lparr>columns := assemble_columns (split_words env (columns_default d)) (keyword_user d),
              filename := strip_percent (filename d),
              compute_ptr := cs, fix_ptr := fs, variable := vs,
              meta := fill_meta (domain env) (meta d)\<rparr>"
    by simp_all
  then show ?thesis
    by (simp add: prepared_def schema_entries_def)
qed

lemma write_no_schema_entries:
  "set (fst (dump_write world store ntimestep d)) \<inter> set (schema_entries d') = {}"
  by (auto simp: dump_write_def schema_entries_def Let_def split: prod.splits if_splits)

text \<open>
  C7. The one-time schema metadata is published by rank 0 only and at initialization
  only: a process of another rank issues no store call in \<^verbatim>\<open>init_style\<close>; on rank 0 the
  store calls of \<^verbatim>\<open>init_style\<close> are an initial part of the four entries, all at version
  0, in the order column-schema byte length, column-schema string, column count, geometry
  record, and all four when \<^verbatim>\<open>init_style\<close> returns; and no call of \<^verbatim>\<open>write\<close> issues any of
  these entries.
\<close>

theorem schema_metadata_leader_only:
  "(me d \<noteq> 0 \<longrightarrow> fst (init_style env store d) = []) \<and>
   (me d = 0 \<longrightarrow> (\<exists>rest. schema_entries (prepared env d) = fst (init_style env store d) @ rest)) \<and>
   (me d = 0 \<longrightarrow> (\<forall>calls d'. init_style env store d = (calls, Inr d') \<longrightarrow>
      calls = schema_entries (prepared env d))) \<and>
   set (fst (dump_write world store' ntimestep d'')) \<inter> set (schema_entries (prepared env d)) = {}"
  using init_style_follower [of d env store] init_style_prefix [of d env store]
    init_style_success [of d env store] write_no_schema_entries
  by (metis (no_types))

theorem schema_metadata_leader_only_witness:
  "fst (init_style example_env (\<lambda>c. 0) example_dump) = [] \<and>
   fst (init_style example_env (\<lambda>c. 0) (example_dump\<lparr>me := 0\<rparr>)) =
     [Put_meta (Client 1) ''column_names_str_size'' 0 (P_int 8) 4,
      Put_meta (Client 1) ''column_names'' 0 (P_string ''x Y z vx'') 8,
      Put_meta (Client 1) ''ncolumns'' 0 (P_int 4) 4,
      Put_meta (Client 1) ''d1'' 0
        (P_meta \<lparr>boxxlo = 0, boxxhi = 12, boxylo = 0, boxyhi = 20, boxzlo = 0, boxzhi = 30,
           triclinic = 1, boxxy = 2, boxxz = 0, boxyz = 0,
           boundary = [(0, 0), (0, 0), (1, 1)]\<rparr>) 104]"
proof -
  have follower: "me example_dump \<noteq> 0"
    by (simp add: example_dump_def)
  have leader: "me (example_dump\<lparr>me := 0\<rparr>) = 0"
    by simp
  have entries: "schema_entries (prepared example_env (example_dump\<lparr>me := 0\<rparr>)) =
     [Put_meta (Client 1) ''column_names_str_size'' 0 (P_int 8) 4,
      Put_meta (Client 1) ''column_names'' 0 (P_string ''x Y z vx'') 8,
      Put_meta (Client 1) ''ncolumns'' 0 (P_int 4) 4,
      Put_meta (Client 1) ''d1'' 0
        (P_meta \<lparr>boxxlo = 0, boxxhi = 12, boxylo = 0, boxyhi = 20, boxzlo = 0, boxzhi = 30,
           triclinic = 1, boxxy = 2, boxxz = 0, boxyz = 0,
           boundary = [(0, 0), (0, 0), (1, 1)]\<rparr>) 104]"
    by (simp add: schema_entries_def prepared_def init_eval example_env_def example_box_def
          example_dump_def)
  from schema_metadata_leader_only [of example_dump example_env "\<lambda>c. 0"] follower
  have 1: "fst (init_style example_env (\<lambda>c. 0) example_dump) = []"
    by simp
  from schema_metadata_leader_only [of "example_dump\<lparr>me := 0\<rparr>" example_env "\<lambda>c. 0"] leader
    init_style_example
  have "fst (init_style example_env (\<lambda>c. 0) (example_dump\<lparr>me := 0\<rparr>)) =
      schema_entries (prepared example_env (example_dump\<lparr>me := 0\<rparr>))"
    by simp
  with 1 entries show ?thesis
    by simp
qed

section \<open>Column schema\<close>

lemma space_joined_Cons:
  "space_joined (w # ws) = (if ws = [] then w else w @ '' '' @ space_joined ws)"
  by (cases ws) simp_all

lemma labels_from_Nil_iff: "labels_from user i ws = [] \<longleftrightarrow> ws = []"
  by (cases ws) simp_all

lemma combine_columns_joined:
  assumes "\<forall>w\<in>set ws. w \<noteq> []"
  shows "combine_columns user acc i ws =
           (if ws = [] then acc
            else if acc = [] then space_joined (labels_from user i ws)
            else acc @ '' '' @ space_joined (labels_from user i ws))"
  using assms
proof (induction ws arbitrary: acc i)
  case Nil
  then show ?case by simp
next
  case (Cons item items)
  then have items: "\<forall>w\<in>set items. w \<noteq> []" and item: "item \<noteq> []"
    by simp_all
  show ?case
    using item by (simp add: Cons.IH [OF items] Let_def space_joined_Cons labels_from_Nil_iff)
qed

lemma init_style_columns:
  "init_style env store d = (calls, Inr d') \<Longrightarrow>
     columns d' = assemble_columns (split_words env (columns_default d)) (keyword_user d)"
  by (auto simp: init_style_def put_schema_def Let_def split: sum.splits if_splits)

text \<open>
  C8. For default labels as the word splitter yields them (none of them empty), the
  assembled column string is the space-joined list of labels in which the user's label at
  position \<open>i\<close> replaces the default label at position \<open>i\<close> and the defaults fill every
  other position; it is the column string \<^verbatim>\<open>init_style\<close> leaves in the dump. For the
  defaults \<open>x y z vx\<close> and the user label \<open>Y\<close> at position 1 it is \<open>x Y z vx\<close>.
\<close>

theorem assemble_columns_space_joined:
  assumes "\<forall>w\<in>set defaults. w \<noteq> []"
  shows "assemble_columns defaults user = space_joined (labels_from user 0 defaults) \<and>
         (\<forall>env store d calls d'. init_style env store d = (calls, Inr d') \<longrightarrow>
            columns d' = assemble_columns (split_words env (columns_default d)) (keyword_user d))"
  using assms combine_columns_joined [of defaults user "[]" 0] init_style_columns
  by (auto simp: assemble_columns_def)

theorem assemble_columns_space_joined_witness:
  "assemble_columns [''x'', ''y'', ''z'', ''vx''] (\<lambda>i. if i = 1 then ''Y'' else []) = ''x Y z vx''"
proof -
  have "\<forall>w\<in>set [''x'', ''y'', ''z'', ''vx'']. w \<noteq> []" by simp
  from assemble_columns_space_joined [OF this, of "\<lambda>i. if i = 1 then ''Y'' else []"]
  show ?thesis by simp
qed

section \<open>Geometry record\<close>

text \<open>
  For the triclinic example box, whose orthogonal extent in \<open>x\<close> ends at 10, the record
  holds the bounding box and the tilt factors; no member holds the orthogonal 10.
\<close>

theorem geometry_record_triclinic_box:
  "boxhi example_box ! 0 = 10 \<and>
   fill_meta example_box (meta example_dump) =
     \<lparr>boxxlo = 0, boxxhi = 12, boxylo = 0, boxyhi = 20, boxzlo = 0, boxzhi = 30,
      triclinic = 1, boxxy = 2, boxxz = 0, boxyz = 0, boundary = [(0, 0), (0, 0), (1, 1)]\<rparr>"
  by (simp add: fill_meta_def example_box_def example_dump_def)

lemma init_style_meta:
  "init_style env store d = (calls, Inr d') \<Longrightarrow> meta d' = fill_meta (domain env) (meta d)"
  by (auto simp: init_style_def put_schema_def Let_def split: sum.splits if_splits)

text \<open>
  C9, as the code has it. The geometry record always holds the triclinic flag and the
  boundary codes of the box, one pair per axis. Its six box members hold the orthogonal
  box low and high per axis when the box is orthogonal, with the tilt members left as they
  were; when the box is triclinic the same six members hold the low and high of the
  bounding box instead, and the tilt members hold the three tilt factors. This is the
  record \<^verbatim>\<open>init_style\<close> leaves in the dump.
\<close>

theorem geometry_record_contents:
  "triclinic (fill_meta box m) = (if dom_triclinic box = 0 then 0 else 1) \<and>
   boundary (fill_meta box m) = dom_boundary box \<and>
   (dom_triclinic box = 0 \<longrightarrow>
      boxxlo (fill_meta box m) = boxlo box ! 0 \<and> boxxhi (fill_meta box m) = boxhi box ! 0 \<and>
      boxylo (fill_meta box m) = boxlo box ! 1 \<and> boxyhi (fill_meta box m) = boxhi box ! 1 \<and>
      boxzlo (fill_meta box m) = boxlo box ! 2 \<and> boxzhi (fill_meta box m) = boxhi box ! 2 \<and>
      boxxy (fill_meta box m) = boxxy m \<and> boxxz (fill_meta box m) = boxxz m \<and>
      boxyz (fill_meta box m) = boxyz m) \<and>
   (dom_triclinic box \<noteq> 0 \<longrightarrow>
      boxxlo (fill_meta box m) = boxlo_bound box ! 0 \<and>
      boxxhi (fill_meta box m) = boxhi_bound box ! 0 \<and>
      boxylo (fill_meta box m) = boxlo_bound box ! 1 \<and>
      boxyhi (fill_meta box m) = boxhi_bound box ! 1 \<and>
      boxzlo (fill_meta box m) = boxlo_bound box ! 2 \<and>
      boxzhi (fill_meta box m) = boxhi_bound box ! 2 \<and>
      boxxy (fill_meta box m) = xy box \<and> boxxz (fill_meta box m) = xz box \<and>
      boxyz (fill_meta box m) = yz box) \<and>
   (\<forall>env store d calls d'. init_style env store d = (calls, Inr d') \<longrightarrow>
      meta d' = fill_meta (domain env) (meta d))"
  using init_style_meta by (simp add: fill_meta_def Let_def)

theorem geometry_record_contents_witness:
  "boxxhi (fill_meta example_box (meta example_dump)) = 12 \<and>
   boxxy (fill_meta example_box (meta example_dump)) = 2 \<and>
   boxxhi (fill_meta (example_box\<lparr>dom_triclinic := 0\<rparr>) (meta example_dump)) = 10 \<and>
   boxxy (fill_meta (example_box\<lparr>dom_triclinic := 0\<rparr>) (meta example_dump)) = 0 \<and>
   boundary (fill_meta example_box (meta example_dump)) = [(0, 0), (0, 0), (1, 1)]"
proof -
  have tri: "dom_triclinic example_box \<noteq> 0"
    by (simp add: example_box_def)
  have ortho: "dom_triclinic (example_box\<lparr>dom_triclinic := 0\<rparr>) = 0"
    by simp
  from geometry_record_contents [of example_box "meta example_dump"] tri
    geometry_record_contents [of "example_box\<lparr>dom_triclinic := 0\<rparr>" "meta example_dump"] ortho
  show ?thesis
    by (simp add: example_box_def example_dump_def)
qed

section \<open>Finalize\<close>

text \<open>
  C10. Calling finalize while the process-wide client handle is null does not call the
  store at all; with a non-null handle, finalize calls the store's finalize exactly once,
  on that handle.
\<close>

theorem finalize_null_noop:
  "finalize dspaces_CLIENT_NULL = [] \<and> finalize (Client h) = [Fini (Client h)]"
  by (simp add: finalize_def)

end
